theory Spec2Isabelle
  imports Main
begin

section \<open>Python strings\<close>

text \<open>
  A Python \<open>str\<close> is modelled as a \<open>string\<close>: a list of characters, each a code point
  below 256. Offsets and lengths count characters, as Python's do. The newline is
  \<open>CHR 0x0A\<close>.
\<close>

definition isspace :: "char \<Rightarrow> bool" where
  \<comment> \<open>\<open>str.isspace\<close> and the class \<open>\s\<close> of \<open>re\<close> on a \<open>str\<close> pattern: code points
      9-13, 28-32, 133 and 160.\<close>
  "isspace c = (let n = (of_char c :: nat)
                in (9 \<le> n \<and> n \<le> 13) \<or> (28 \<le> n \<and> n \<le> 32) \<or> n = 133 \<or> n = 160)"

definition isword :: "char \<Rightarrow> bool" where
  \<comment> \<open>The class \<open>\w\<close> of \<open>re\<close> on a \<open>str\<close> pattern: alphanumeric code points and the
      underscore.\<close>
  "isword c = (let n = (of_char c :: nat)
               in (48 \<le> n \<and> n \<le> 57) \<or> (65 \<le> n \<and> n \<le> 90) \<or> n = 95 \<or> (97 \<le> n \<and> n \<le> 122)
                  \<or> n = 170 \<or> n = 178 \<or> n = 179 \<or> n = 181 \<or> n = 185 \<or> n = 186
                  \<or> (188 \<le> n \<and> n \<le> 190) \<or> (192 \<le> n \<and> n \<le> 214)
                  \<or> (216 \<le> n \<and> n \<le> 246) \<or> (248 \<le> n \<and> n \<le> 255))"

function split_nl :: "string \<Rightarrow> string list" where
  \<comment> \<open>\<open>text.split('\n')\<close>: the text up to the first newline, then the rest split; always
      at least one line.\<close>
  "split_nl s =
     takeWhile (\<lambda>c. c \<noteq> CHR 0x0A) s #
     (case dropWhile (\<lambda>c. c \<noteq> CHR 0x0A) s of
        [] \<Rightarrow> []
      | c # rest \<Rightarrow> split_nl rest)"
  by pat_completeness auto
termination
proof (relation "measure length")
  fix s :: string and c rest
  assume "dropWhile (\<lambda>c. c \<noteq> CHR 0x0A) s = c # rest"
  then have "length rest < length (dropWhile (\<lambda>c. c \<noteq> CHR 0x0A) s)"
    by simp
  also have "\<dots> \<le> length s"
    by (rule length_dropWhile_le)
  finally show "(rest, s) \<in> measure length"
    by simp
qed simp

declare split_nl.simps [simp del]

fun join_nl :: "string list \<Rightarrow> string" where
  \<comment> \<open>\<open>'\n'.join(xs)\<close>\<close>
  "join_nl [] = []"
| "join_nl [x] = x"
| "join_nl (x # y # ys) = x @ CHR 0x0A # join_nl (y # ys)"

definition count_nl :: "string \<Rightarrow> int" where
  \<comment> \<open>\<open>s.count('\n')\<close>\<close>
  "count_nl s = int (length (filter (\<lambda>c. c = CHR 0x0A) s))"

definition lstrip :: "string \<Rightarrow> string" where
  "lstrip s = dropWhile isspace s"

definition rstrip :: "string \<Rightarrow> string" where
  "rstrip s = rev (dropWhile isspace (rev s))"

definition strip :: "string \<Rightarrow> string" where
  "strip s = lstrip (rstrip s)"

definition slice :: "string \<Rightarrow> nat \<Rightarrow> nat \<Rightarrow> string" where
  \<comment> \<open>\<open>s[a:b]\<close> for offsets within the string; empty when \<open>b \<le> a\<close>.\<close>
  "slice s a b = take (b - a) (drop a s)"

fun startswith :: "string \<Rightarrow> string \<Rightarrow> bool" where
  \<comment> \<open>\<open>s.startswith(p)\<close>, the prefix first\<close>
  "startswith [] s = True"
| "startswith (p # ps) [] = False"
| "startswith (p # ps) (c # cs) = (p = c \<and> startswith ps cs)"

definition endswith :: "string \<Rightarrow> string \<Rightarrow> bool" where
  \<comment> \<open>\<open>s.endswith(p)\<close>, the suffix first\<close>
  "endswith p s = startswith (rev p) (rev s)"

fun contains :: "string \<Rightarrow> string \<Rightarrow> bool" where
  \<comment> \<open>\<open>p in s\<close>, the needle first\<close>
  "contains p [] = (p = [])"
| "contains p (c # cs) = (startswith p (c # cs) \<or> contains p cs)"

fun replace :: "string \<Rightarrow> string \<Rightarrow> string \<Rightarrow> string" where
  \<comment> \<open>\<open>s.replace(old, new)\<close> for a non-empty \<open>old\<close>, written \<open>replace old new s\<close>:
      every occurrence, left to right, without overlap.\<close>
  "replace old new [] = []"
| "replace [] new (c # cs) = c # cs"
| "replace (p # ps) new (c # cs) =
     (if startswith (p # ps) (c # cs) then new @ replace (p # ps) new (drop (length ps) cs)
      else c # replace (p # ps) new cs)"

definition digit :: "nat \<Rightarrow> char" where
  "digit d = char_of (48 + d)"

function str_nat :: "nat \<Rightarrow> string" where
  "str_nat n = (if n < 10 then [digit n] else str_nat (n div 10) @ [digit (n mod 10)])"
  by pat_completeness auto
termination
  by (relation "measure id") auto

declare str_nat.simps [simp del]

definition str :: "int \<Rightarrow> string" where
  \<comment> \<open>\<open>str(i)\<close> of a Python integer\<close>
  "str i = (if i < 0 then CHR ''-'' # str_nat (nat (- i)) else str_nat (nat i))"

definition split_dot_first :: "string \<Rightarrow> string" where
  \<comment> \<open>\<open>s.split('.')[0]\<close>\<close>
  "split_dot_first s = takeWhile (\<lambda>c. c \<noteq> CHR ''.'') s"


section \<open>The regular expressions of \<open>re\<close>\<close>

text \<open>
  The scanners use five patterns. They are built from literal characters, the classes
  \<open>\s\<close>, \<open>\w\<close>, \<open>.\<close> and \<open>[^c]\<close>, repetition of a single class (greedy \<open>*\<close> and \<open>+\<close>,
  lazy \<open>*?\<close>), optional groups, alternation, capturing groups and the word boundary
  \<open>\b\<close>. The matcher is the backtracking one of \<open>re\<close>: at a position it lists the
  ways a pattern can match in the order \<open>re\<close> tries them, so the head of the list is the
  match \<open>re\<close> reports.
\<close>

datatype cls =
    Space          \<comment> \<open>\<open>\s\<close>\<close>
  | Word           \<comment> \<open>\<open>\w\<close>\<close>
  | Dot            \<comment> \<open>\<open>.\<close>: any character but the newline\<close>
  | Lit char       \<comment> \<open>a literal character\<close>
  | NotC char      \<comment> \<open>\<open>[^c]\<close>: any character but \<open>c\<close>, the newline included\<close>

fun cls_ok :: "cls \<Rightarrow> char \<Rightarrow> bool" where
  "cls_ok Space c = isspace c"
| "cls_ok Word c = isword c"
| "cls_ok Dot c = (c \<noteq> CHR 0x0A)"
| "cls_ok (Lit a) c = (c = a)"
| "cls_ok (NotC a) c = (c \<noteq> a)"

datatype rx =
    Eps
  | Atom cls
  | Seq rx rx
  | Alt rx rx        \<comment> \<open>\<open>a|b\<close>\<close>
  | Opt rx           \<comment> \<open>\<open>(?:a)?\<close>\<close>
  | Star cls         \<comment> \<open>\<open>c*\<close>\<close>
  | Plus cls         \<comment> \<open>\<open>c+\<close>\<close>
  | StarLazy cls     \<comment> \<open>\<open>c*?\<close>\<close>
  | Grp nat rx       \<comment> \<open>capturing group number \<open>n\<close>\<close>
  | WordB            \<comment> \<open>\<open>\b\<close>\<close>

fun seqs :: "rx list \<Rightarrow> rx" where
  "seqs [] = Eps"
| "seqs [r] = r"
| "seqs (r # rs) = Seq r (seqs rs)"

definition lits :: "string \<Rightarrow> rx" where
  "lits s = seqs (map (\<lambda>c. Atom (Lit c)) s)"

type_synonym groups = "(nat \<times> nat \<times> nat) list"
  \<comment> \<open>group number, start and end offset; the latest binding first\<close>

definition run_len :: "cls \<Rightarrow> string \<Rightarrow> nat \<Rightarrow> nat" where
  \<comment> \<open>how many characters from offset \<open>p\<close> on are in the class\<close>
  "run_len c t p = length (takeWhile (cls_ok c) (drop p t))"

definition word_at :: "string \<Rightarrow> nat \<Rightarrow> bool" where
  "word_at t p = (p < length t \<and> isword (t ! p))"

definition word_boundary :: "string \<Rightarrow> nat \<Rightarrow> bool" where
  "word_boundary t p = ((p > 0 \<and> word_at t (p - 1)) \<noteq> word_at t p)"

fun ms :: "string \<Rightarrow> rx \<Rightarrow> nat \<times> groups \<Rightarrow> (nat \<times> groups) list" where
  \<comment> \<open>the matches of a pattern from a position, each as the end offset and the groups
      bound, in the order of the backtracking search\<close>
  "ms t Eps st = [st]"
| "ms t (Atom c) (p, g) = (if p < length t \<and> cls_ok c (t ! p) then [(p + 1, g)] else [])"
| "ms t (Seq a b) st = concat (map (ms t b) (ms t a st))"
| "ms t (Alt a b) st = ms t a st @ ms t b st"
| "ms t (Opt a) st = ms t a st @ [st]"
| "ms t (Star c) (p, g) = map (\<lambda>k. (p + k, g)) (rev [0 ..< run_len c t p + 1])"
| "ms t (Plus c) (p, g) = map (\<lambda>k. (p + k, g)) (rev [1 ..< run_len c t p + 1])"
| "ms t (StarLazy c) (p, g) = map (\<lambda>k. (p + k, g)) [0 ..< run_len c t p + 1]"
| "ms t (Grp n a) (p, g) = map (\<lambda>(e, g'). (e, (n, p, e) # g')) (ms t a (p, g))"
| "ms t WordB (p, g) = (if word_boundary t p then [(p, g)] else [])"

record match =
  m_start :: nat
  m_end :: nat
  m_groups :: groups

definition match_at :: "string \<Rightarrow> rx \<Rightarrow> nat \<Rightarrow> match option" where
  \<comment> \<open>the match \<open>re\<close> finds when it starts at offset \<open>s\<close>\<close>
  "match_at t r s =
     (case ms t r (s, []) of
        [] \<Rightarrow> None
      | (e, g) # _ \<Rightarrow> Some \<lparr>m_start = s, m_end = e, m_groups = g\<rparr>)"

fun finditer_from :: "string \<Rightarrow> rx \<Rightarrow> nat list \<Rightarrow> nat \<Rightarrow> match list" where
  \<comment> \<open>the start offsets still to try, and the offset below which a start is inside the
      previous match\<close>
  "finditer_from t r [] lim = []"
| "finditer_from t r (s # ss) lim =
     (if s < lim then finditer_from t r ss lim
      else (case match_at t r s of
              None \<Rightarrow> finditer_from t r ss lim
            | Some m \<Rightarrow> m # finditer_from t r ss (max (m_end m) (s + 1))))"

definition finditer :: "rx \<Rightarrow> string \<Rightarrow> match list" where
  \<comment> \<open>\<open>re.finditer(regex, text)\<close>, all of it: the leftmost match first, the next search
      from the end of the match. None of the five patterns matches the empty string.\<close>
  "finditer r t = finditer_from t r [0 ..< length t + 1] 0"

definition search :: "rx \<Rightarrow> string \<Rightarrow> match option" where
  \<comment> \<open>\<open>re.search(regex, text)\<close>: the leftmost match, or \<open>None\<close>\<close>
  "search r t = (case finditer r t of [] \<Rightarrow> None | m # _ \<Rightarrow> Some m)"

definition group0 :: "string \<Rightarrow> match \<Rightarrow> string" where
  \<comment> \<open>\<open>match.group(0)\<close>\<close>
  "group0 t m = slice t (m_start m) (m_end m)"

definition group :: "string \<Rightarrow> match \<Rightarrow> nat \<Rightarrow> string option" where
  \<comment> \<open>\<open>match.group(n)\<close>: \<open>None\<close> for a group that took no part in the match\<close>
  "group t m n = map_option (\<lambda>(a, b). slice t a b) (map_of (m_groups m) n)"

section \<open>Function records and the line index\<close>

datatype error = StopIteration | UnboundLocalError | AttributeError | TypeError

record FunctionRecord =
  rtype :: string                \<comment> \<open>the key \<open>type\<close>\<close>
  name :: string
  start_line :: int
  end_line :: int
  offset_start :: int
  offset_end :: int
  content :: string
  header :: "string option"      \<comment> \<open>a key of the Move records only\<close>
  contract_name :: string
  contract_code :: string
  modifiers :: "string list"
  stateMutability :: "string option"
  returnParameters :: "string option"
  visibility :: string
  node_count :: int

definition line_starts :: "string list \<Rightarrow> (nat \<times> nat) list" where
  \<comment> \<open>the dictionary \<open>{i: sum(len(line) + 1 for line in lines[:i])}\<close>, in insertion
      order\<close>
  "line_starts lines =
     map (\<lambda>i. (i, sum_list (map (\<lambda>line. length line + 1) (take i lines)))) [0 ..< length lines]"

definition next_line :: "(nat \<times> nat) list \<Rightarrow> nat \<Rightarrow> nat option" where
  \<comment> \<open>\<open>next(i for i, pos in line_starts.items() if pos > off)\<close>; \<open>None\<close> is the
      exhausted generator\<close>
  "next_line ls off = map_option fst (find (\<lambda>(i, pos). pos > off) ls)"

section \<open>The brace-counting loop\<close>

fun body_end :: "string \<Rightarrow> nat \<Rightarrow> int \<Rightarrow> nat option" where
  \<comment> \<open>the loop \<open>for i in range(match.end(), len(text))\<close> of the Rust, Move and Cairo
      scanners, over the characters from offset \<open>i\<close> on: \<open>Some (i + 1)\<close> is
      \<open>function_body_end\<close> at the \<open>break\<close>, \<open>None\<close> a loop that ran to the end of the
      text. \<open>inside_braces\<close> is always true.\<close>
  "body_end [] i brace_count = None"
| "body_end (c # cs) i brace_count =
     (let brace_count' =
            (if c = CHR ''{'' then brace_count + 1
             else if c = CHR ''}'' then brace_count - 1
             else brace_count)
      in if brace_count' = 0 then Some (i + 1) else body_end cs (i + 1) brace_count')"

definition function_body_of :: "string \<Rightarrow> match \<Rightarrow> string option" where
  \<comment> \<open>what one round of the first loop appends to \<open>function_bodies\<close>, if anything\<close>
  "function_body_of text m =
     map_option (\<lambda>function_body_end. slice text (m_start m) function_body_end)
       (body_end (drop (m_end m) text) (m_end m) 1)"

section \<open>The Rust scanner\<close>

definition rust_regex :: rx where
  \<comment> \<open>\<open>((?:pub(?:\s*\([^)]*\))?\s+)?fn\s+\w+(?:<[^>]*>)?\s*\([^{]*\)(?:\s*->\s*[^{]*)?\s*\{)\<close>\<close>
  "rust_regex =
     Grp 1 (seqs
       [Opt (seqs [lits ''pub'',
                   Opt (seqs [Star Space, Atom (Lit CHR ''(''), Star (NotC CHR '')''),
                              Atom (Lit CHR '')'')]),
                   Plus Space]),
        lits ''fn'', Plus Space, Plus Word,
        Opt (seqs [Atom (Lit CHR ''<''), Star (NotC CHR ''>''), Atom (Lit CHR ''>'')]),
        Star Space, Atom (Lit CHR ''(''), Star (NotC CHR ''{''), Atom (Lit CHR '')''),
        Opt (seqs [Star Space, lits ''->'', Star Space, Star (NotC CHR ''{'')]),
        Star Space, Atom (Lit CHR ''{'')])"

definition fn_name_regex :: rx where
  \<comment> \<open>\<open>\bfn\s+(\w+)\<close>\<close>
  "fn_name_regex = seqs [WordB, lits ''fn'', Plus Space, Grp 1 (Plus Word)]"

definition fn_name :: "string \<Rightarrow> error + string" where
  \<comment> \<open>\<open>re.search(r'\bfn\s+(\w+)', head).group(1)\<close>; \<open>.group\<close> of \<open>None\<close> is an
      \<open>AttributeError\<close>\<close>
  "fn_name head =
     (case search fn_name_regex head of
        None \<Rightarrow> Inl AttributeError
      | Some nm \<Rightarrow> (case group head nm 1 of None \<Rightarrow> Inl TypeError | Some n \<Rightarrow> Inr n))"

definition rust_round :: "string \<Rightarrow> string \<Rightarrow> int \<Rightarrow> string list \<Rightarrow> string \<Rightarrow> match
                            \<Rightarrow> error + FunctionRecord option" where
  \<comment> \<open>one round of the second loop: an exception, no record (the inner loop ended
      without a \<open>break\<close>) or the record appended\<close>
  "rust_round text filename hash lines contract_code' m =
     (case next_line (line_starts lines) (m_start m) of
        None \<Rightarrow> Inl StopIteration
      | Some i1 \<Rightarrow>
         (let start_line_number = int i1 - 1;
              function_body_start = m_start m
          in (case body_end (drop (m_end m) text) (m_end m) 1 of
                None \<Rightarrow> Inr None
              | Some function_body_end \<Rightarrow>
                 (let end_line_number =
                        (case next_line (line_starts lines) function_body_end of
                           None \<Rightarrow> int (length lines)
                         | Some i2 \<Rightarrow> int i2) - 1;
                      function_body = slice text function_body_start function_body_end;
                      function_body_lines = count_nl function_body + 1
                  in (case group text m 1 of
                        None \<Rightarrow> Inl TypeError
                      | Some head \<Rightarrow>
                         (let visibility' = (if contains ''pub'' head then ''public'' else ''private'')
                          in (case fn_name head of
                                Inl e \<Rightarrow> Inl e
                              | Inr n \<Rightarrow>
                                  Inr (Some
                                     \<lparr>rtype = ''FunctionDefinition'',
                                      name = ''special_'' @ n,
                                      start_line = start_line_number + 1,
                                      end_line = end_line_number,
                                      offset_start = 0,
                                      offset_end = 0,
                                      content = function_body,
                                      header = None,
                                      contract_name = replace ''.rs'' (''_rust'' @ str hash) filename,
                                      contract_code = contract_code',
                                      modifiers = [],
                                      stateMutability = None,
                                      returnParameters = None,
                                      visibility = visibility',
                                      node_count = function_body_lines\<rparr>))))))))"

fun brace_loop :: "(match \<Rightarrow> error + FunctionRecord option) \<Rightarrow> match list
                     \<Rightarrow> FunctionRecord list \<Rightarrow> error + FunctionRecord list" where
  \<comment> \<open>the second \<open>for match in re.finditer(regex, text)\<close> of the Rust and Cairo
      scanners, with the list \<open>functions\<close> built so far\<close>
  "brace_loop round [] functions = Inr functions"
| "brace_loop round (m # matches) functions =
     (case round m of
        Inl e \<Rightarrow> Inl e
      | Inr None \<Rightarrow> brace_loop round matches functions
      | Inr (Some r) \<Rightarrow> brace_loop round matches (functions @ [r]))"

definition find_rust_functions :: "string \<Rightarrow> string \<Rightarrow> int \<Rightarrow> error + FunctionRecord list" where
  "find_rust_functions text filename hash =
     (let matches = finditer rust_regex text;
          lines = split_nl text;
          function_bodies = List.map_filter (function_body_of text) matches;
          contract_code' = strip (join_nl function_bodies)
      in brace_loop (rust_round text filename hash lines contract_code')
           (finditer rust_regex text) [])"

section \<open>The Move scanner\<close>

definition move_regex :: rx where
  \<comment> \<open>\<open>((?:public\s+)?(?:entry\s+)?(?:native\s+)?(?:inline\s+)?fun\s+(?:<[^>]+>\s*)?(\w+)\s*\<close>
      \<open>(?:<[^>]+>)?\s*\([^)]*\)(?:\s*:\s*[^{]+)?(?:\s+acquires\s+[^{]+)?\s*(?:\{|;))\<close>\<close>
  "move_regex =
     Grp 1 (seqs
       [Opt (seqs [lits ''public'', Plus Space]),
        Opt (seqs [lits ''entry'', Plus Space]),
        Opt (seqs [lits ''native'', Plus Space]),
        Opt (seqs [lits ''inline'', Plus Space]),
        lits ''fun'', Plus Space,
        Opt (seqs [Atom (Lit CHR ''<''), Plus (NotC CHR ''>''), Atom (Lit CHR ''>''), Star Space]),
        Grp 2 (Plus Word), Star Space,
        Opt (seqs [Atom (Lit CHR ''<''), Plus (NotC CHR ''>''), Atom (Lit CHR ''>'')]),
        Star Space, Atom (Lit CHR ''(''), Star (NotC CHR '')''), Atom (Lit CHR '')''),
        Opt (seqs [Star Space, Atom (Lit CHR '':''), Star Space, Plus (NotC CHR ''{'')]),
        Opt (seqs [Plus Space, lits ''acquires'', Plus Space, Plus (NotC CHR ''{'')]),
        Star Space, Alt (Atom (Lit CHR ''{'')) (Atom (Lit CHR '';''))])"

definition move_body_of :: "string \<Rightarrow> match \<Rightarrow> error + string option" where
  \<comment> \<open>what one round of the first loop appends to \<open>function_bodies\<close>, if anything\<close>
  "move_body_of text m =
     (case group text m 1 of
        None \<Rightarrow> Inl AttributeError
      | Some head \<Rightarrow>
          if endswith '';'' (strip head) then Inr (Some head)
          else Inr (function_body_of text m))"

fun move_bodies :: "string \<Rightarrow> match list \<Rightarrow> string list \<Rightarrow> error + string list" where
  \<comment> \<open>the first loop, with the list \<open>function_bodies\<close> built so far\<close>
  "move_bodies text [] function_bodies = Inr function_bodies"
| "move_bodies text (m # matches) function_bodies =
     (case move_body_of text m of
        Inl e \<Rightarrow> Inl e
      | Inr None \<Rightarrow> move_bodies text matches function_bodies
      | Inr (Some b) \<Rightarrow> move_bodies text matches (function_bodies @ [b]))"

type_synonym move_locals = "(int \<times> string \<times> int) option"
  \<comment> \<open>the locals \<open>end_line_number\<close>, \<open>function_body\<close> and \<open>function_body_lines\<close> of the
      second loop: unbound (\<open>None\<close>) until a round assigns them, which it does to all
      three or to none, and kept from one round to the next\<close>

definition move_assign :: "string \<Rightarrow> string list \<Rightarrow> match \<Rightarrow> string \<Rightarrow> int \<Rightarrow> move_locals
                               \<Rightarrow> error + move_locals" where
  \<comment> \<open>the \<open>if\<close>/\<open>else\<close> of one round of the second loop\<close>
  "move_assign text lines m head start_line_number locals =
     (if endswith '';'' (strip head) then Inr (Some (start_line_number, head, 1))
      else (case body_end (drop (m_end m) text) (m_end m) 1 of
              None \<Rightarrow> Inr locals
            | Some function_body_end \<Rightarrow>
               (case next_line (line_starts lines) function_body_end of
                  None \<Rightarrow> Inl StopIteration
                | Some i2 \<Rightarrow>
                   (let end_line_number = int i2 - 1;
                        function_body = slice text (m_start m) function_body_end;
                        function_body_lines = count_nl function_body + 1
                    in Inr (Some (end_line_number, function_body, function_body_lines))))))"

definition move_round :: "string \<Rightarrow> string \<Rightarrow> int \<Rightarrow> string list \<Rightarrow> string \<Rightarrow> match
                            \<Rightarrow> move_locals \<Rightarrow> error + move_locals \<times> FunctionRecord" where
  \<comment> \<open>one round of the second loop: an exception, or the locals after the round and the
      record appended\<close>
  "move_round text filename hash lines contract_code' m locals =
     (case next_line (line_starts lines) (m_start m) of
        None \<Rightarrow> Inl StopIteration
      | Some i1 \<Rightarrow>
         (let start_line_number = int i1 - 1
          in (case group text m 1 of
                None \<Rightarrow> Inl AttributeError
              | Some head \<Rightarrow>
                 (case move_assign text lines m head start_line_number locals of
                    Inl e \<Rightarrow> Inl e
                  | Inr locals' \<Rightarrow>
                     (let visibility' = (if contains ''public'' head then ''public'' else ''private'');
                          is_native = contains ''native'' head
                      in (case group text m 2 of
                            None \<Rightarrow> Inl TypeError
                          | Some n \<Rightarrow>
                             (case locals' of
                                None \<Rightarrow> Inl UnboundLocalError
                              | Some (end_line_number, function_body, function_body_lines) \<Rightarrow>
                                  Inr (locals',
                                     \<lparr>rtype = ''FunctionDefinition'',
                                      name = ''special_'' @ n,
                                      start_line = start_line_number + 1,
                                      end_line = end_line_number,
                                      offset_start = 0,
                                      offset_end = 0,
                                      content = function_body,
                                      header = Some (strip head),
                                      contract_name = replace ''.move'' (''_move'' @ str hash) filename,
                                      contract_code = contract_code',
                                      modifiers = (if is_native then [''native''] else []),
                                      stateMutability = None,
                                      returnParameters = None,
                                      visibility = visibility',
                                      node_count = function_body_lines\<rparr>))))))))"

fun move_loop :: "(match \<Rightarrow> move_locals \<Rightarrow> error + move_locals \<times> FunctionRecord) \<Rightarrow> match list
                    \<Rightarrow> move_locals \<Rightarrow> FunctionRecord list \<Rightarrow> error + FunctionRecord list" where
  \<comment> \<open>the second loop, with the locals and the list \<open>functions\<close> so far\<close>
  "move_loop round [] locals functions = Inr functions"
| "move_loop round (m # matches) locals functions =
     (case round m locals of
        Inl e \<Rightarrow> Inl e
      | Inr (locals', r) \<Rightarrow> move_loop round matches locals' (functions @ [r]))"

definition find_move_functions :: "string \<Rightarrow> string \<Rightarrow> int \<Rightarrow> error + FunctionRecord list" where
  "find_move_functions text filename hash =
     (let matches = finditer move_regex text;
          lines = split_nl text
      in (case move_bodies text matches [] of
            Inl e \<Rightarrow> Inl e
          | Inr function_bodies \<Rightarrow>
             (let contract_code' = strip (join_nl function_bodies)
              in move_loop (move_round text filename hash lines contract_code')
                   (finditer move_regex text) None [])))"

section \<open>The Go scanner\<close>

definition go_regex :: rx where
  \<comment> \<open>\<open>func\s+.*\{\<close>\<close>
  "go_regex = seqs [lits ''func'', Plus Space, Star Dot, Atom (Lit CHR ''{'')]"

fun go_body_end :: "string \<Rightarrow> nat \<Rightarrow> int \<Rightarrow> nat option" where
  \<comment> \<open>the loop \<open>for i in range(match.end(), len(text))\<close> over the characters from
      offset \<open>i\<close> on; \<open>Some\<close> is the assignment before the \<open>break\<close>\<close>
  "go_body_end [] i brace_count = None"
| "go_body_end (c # cs) i brace_count =
     (if c = CHR ''{'' then go_body_end cs (i + 1) (brace_count + 1)
      else if c = CHR ''}'' then
        (if brace_count - 1 = 0 then Some (i + 1)
         else go_body_end cs (i + 1) (brace_count - 1))
      else go_body_end cs (i + 1) brace_count)"

definition go_round :: "string \<Rightarrow> string \<Rightarrow> int \<Rightarrow> string list \<Rightarrow> match
                          \<Rightarrow> error + FunctionRecord" where
  \<comment> \<open>one round of the loop: an exception or the record appended\<close>
  "go_round text filename hash lines m =
     (let function_body_start = m_start m
      in (case next_line (line_starts lines) function_body_start of
            None \<Rightarrow> Inl StopIteration
          | Some i1 \<Rightarrow>
             (let start_line_number = int i1 - 1;
                  function_body_end =
                    (case go_body_end (drop (m_end m) text) (m_end m) 1 of
                       None \<Rightarrow> function_body_start
                     | Some e \<Rightarrow> e)
              in (case next_line (line_starts lines) function_body_end of
                    None \<Rightarrow> Inl StopIteration
                  | Some i2 \<Rightarrow>
                     (let end_line_number = int i2 - 1;
                          function_body = slice text function_body_start function_body_end;
                          function_body_lines = count_nl function_body + 1
                      in Inr \<lparr>rtype = ''FunctionDefinition'',
                              name = ''special_func'',
                              start_line = start_line_number + 1,
                              end_line = end_line_number,
                              offset_start = 0,
                              offset_end = 0,
                              content = function_body,
                              header = None,
                              contract_name = replace ''.go'' (''_go'' @ str hash) filename,
                              contract_code = text,
                              modifiers = [],
                              stateMutability = None,
                              returnParameters = None,
                              visibility = ''public'',
                              node_count = function_body_lines\<rparr>)))))"

fun each_loop :: "(match \<Rightarrow> error + FunctionRecord) \<Rightarrow> match list \<Rightarrow> FunctionRecord list
                    \<Rightarrow> error + FunctionRecord list" where
  \<comment> \<open>the \<open>for match in matches\<close> of the Go and Python scanners, whose every round
      appends a record, with the list \<open>functions\<close> built so far\<close>
  "each_loop round [] functions = Inr functions"
| "each_loop round (m # matches) functions =
     (case round m of
        Inl e \<Rightarrow> Inl e
      | Inr r \<Rightarrow> each_loop round matches (functions @ [r]))"

definition find_go_functions :: "string \<Rightarrow> string \<Rightarrow> int \<Rightarrow> error + FunctionRecord list" where
  "find_go_functions text filename hash =
     (let matches = finditer go_regex text;
          lines = split_nl text
      in each_loop (go_round text filename hash lines) matches [])"

section \<open>The Python scanner\<close>

definition python_regex :: rx where
  \<comment> \<open>\<open>def\s+(\w+)\s*\((.*?)\)(?:\s*->\s*(\w+))?\s*:\<close>\<close>
  "python_regex =
     seqs [lits ''def'', Plus Space, Grp 1 (Plus Word), Star Space,
           Atom (Lit CHR ''(''), Grp 2 (StarLazy Dot), Atom (Lit CHR '')''),
           Opt (seqs [Star Space, lits ''->'', Star Space, Grp 3 (Plus Word)]),
           Star Space, Atom (Lit CHR '':'')]"

fun any_matches :: "match list \<Rightarrow> bool \<times> match list" where
  \<comment> \<open>\<open>any(matches)\<close> on the iterator \<open>matches\<close>: the answer, and what is left of the
      iterator. \<open>any\<close> takes items up to and including the first true one, and a match
      object is always true.\<close>
  "any_matches [] = (False, [])"
| "any_matches (m # rest) = (True, rest)"

definition indent :: "string \<Rightarrow> int" where
  \<comment> \<open>\<open>len(line) - len(line.lstrip())\<close>\<close>
  "indent line = int (length line) - int (length (lstrip line))"

fun python_body_end :: "string list \<Rightarrow> int \<Rightarrow> int \<Rightarrow> int" where
  \<comment> \<open>the \<open>while\<close> loop over the lines from index \<open>end_line_number\<close> on; the value of
      \<open>end_line_number\<close> when it ends\<close>
  "python_body_end [] end_line_number indent_level = end_line_number"
| "python_body_end (line # rest) end_line_number indent_level =
     (if strip line \<noteq> [] \<and> indent line \<le> indent_level then end_line_number
      else python_body_end rest (end_line_number + 1) indent_level)"

definition python_round :: "string \<Rightarrow> string \<Rightarrow> int \<Rightarrow> string list \<Rightarrow> match
                              \<Rightarrow> error + FunctionRecord" where
  \<comment> \<open>one round of the loop: an exception or the record appended. The line index
      \<open>start_line_number\<close> is never negative and below \<open>len(lines)\<close>.\<close>
  "python_round text filename hash_value lines m =
     (case next_line (line_starts lines) (m_start m) of
        None \<Rightarrow> Inl StopIteration
      | Some i1 \<Rightarrow>
         (let start_line_number = i1 - 1;
              indent_level = indent (lines ! start_line_number);
              end_line_number =
                python_body_end (drop (start_line_number + 1) lines)
                  (int start_line_number + 1) indent_level - 1;
              function_body =
                join_nl (take (nat (end_line_number + 1) - start_line_number)
                           (drop start_line_number lines));
              function_body_lines = count_nl function_body + 1
          in (case group text m 1 of
                None \<Rightarrow> Inl TypeError
              | Some n \<Rightarrow>
                  Inr \<lparr>rtype = ''FunctionDefinition'',
                       name = ''function'' @ n,
                       start_line = int start_line_number + 1,
                       end_line = end_line_number + 1,
                       offset_start = 0,
                       offset_end = 0,
                       content = function_body,
                       header = None,
                       contract_name = replace ''.py'' (''_python'' @ str hash_value) filename,
                       contract_code = strip text,
                       modifiers = [],
                       stateMutability = None,
                       returnParameters = None,
                       visibility = ''public'',
                       node_count = function_body_lines\<rparr>)))"

definition find_python_functions :: "string \<Rightarrow> string \<Rightarrow> int \<Rightarrow> error + FunctionRecord list" where
  "find_python_functions text filename hash_value =
     (let matches = finditer python_regex text;
          lines = split_nl text
      in (case any_matches matches of
            (True, matches') \<Rightarrow>
              each_loop (python_round text filename hash_value lines) matches' []
          | (False, matches') \<Rightarrow>
             (let function_body_lines = int (length lines)
              in Inr [\<lparr>rtype = ''FunctionDefinition'',
                        name = ''function'' @ split_dot_first filename @ ''all'',
                        start_line = 1,
                        end_line = function_body_lines,
                        offset_start = 0,
                        offset_end = 0,
                        content = strip text,
                        header = None,
                        contract_name = replace ''.py'' (''_python'' @ str hash_value) filename,
                        contract_code = strip text,
                        modifiers = [],
                        stateMutability = None,
                        returnParameters = None,
                        visibility = ''public'',
                        node_count = function_body_lines\<rparr>])))"

section \<open>The Cairo scanner\<close>

definition cairo_round :: "string \<Rightarrow> string \<Rightarrow> int \<Rightarrow> string list \<Rightarrow> match
                             \<Rightarrow> error + FunctionRecord option" where
  \<comment> \<open>one round of the second loop: an exception, no record (the inner loop ended
      without a \<open>break\<close>) or the record appended\<close>
  "cairo_round text filename hash lines m =
     (case next_line (line_starts lines) (m_start m) of
        None \<Rightarrow> Inl StopIteration
      | Some i1 \<Rightarrow>
         (let start_line_number = int i1 - 1;
              function_body_start = m_start m
          in (case body_end (drop (m_end m) text) (m_end m) 1 of
                None \<Rightarrow> Inr None
              | Some function_body_end \<Rightarrow>
                 (case next_line (line_starts lines) function_body_end of
                    None \<Rightarrow> Inl StopIteration
                  | Some i2 \<Rightarrow>
                     (let end_line_number = int i2 - 1;
                          function_body = slice text function_body_start function_body_end;
                          function_body_lines = count_nl function_body + 1;
                          visibility' = ''public''
                      in (case group text m 1 of
                            None \<Rightarrow> Inl TypeError
                          | Some head \<Rightarrow>
                             (case fn_name head of
                                Inl e \<Rightarrow> Inl e
                              | Inr n \<Rightarrow>
                                  Inr (Some
                                     \<lparr>rtype = ''FunctionDefinition'',
                                      name = ''special_'' @ n,
                                      start_line = start_line_number + 1,
                                      end_line = end_line_number,
                                      offset_start = 0,
                                      offset_end = 0,
                                      content = function_body,
                                      header = None,
                                      contract_name = replace ''.cairo'' (''_cairo'' @ str hash) filename,
                                      contract_code = [],
                                      modifiers = [],
                                      stateMutability = None,
                                      returnParameters = None,
                                      visibility = visibility',
                                      node_count = function_body_lines\<rparr>))))))))"


section \<open>The dispatcher\<close>



section \<open>The Solidity parser's entry point\<close>

record syntax_error =
  message :: string
  line :: int
  column :: int

datatype parse_error =
    ParserError string "syntax_error list"   \<comment> \<open>its \<open>message\<close> and its \<open>errors\<close>\<close>
  | Exception string
  | IndexError
  | TypeError'                               \<comment> \<open>a \<open>TypeError\<close>\<close>
  | DumpError                                \<comment> \<open>what the JSON dump raised, if it did\<close>

definition ParserError_init :: "syntax_error list \<Rightarrow> parse_error" where
  \<comment> \<open>what \<open>raise ParserError(errors=errors)\<close> raises: \<open>errors[0]\<close> of an empty list is an
      \<open>IndexError\<close>\<close>
  "ParserError_init errs =
     (case errs of
        [] \<Rightarrow> IndexError
      | e # _ \<Rightarrow>
          ParserError (message e @ '' ('' @ str (line e) @ '':'' @ str (column e) @ '')'') errs)"

record SGPVisitorOptions =
  tokens :: bool
  errors_tolerant :: bool

record ('a, 't) SourceUnit =
  su_root :: 'a                                 \<comment> \<open>the tree the visitor built\<close>
  su_errors :: "syntax_error list option"       \<comment> \<open>the attribute \<open>errors\<close>\<close>
  su_tokens :: "'t list option"                 \<comment> \<open>the item \<open>"tokens"\<close>\<close>

datatype 'u visit = VisitRaised | VisitNone | VisitReturned 'u
  \<comment> \<open>\<open>ast_builder.visit(source_unit)\<close>: an exception, \<open>None\<close> or a source unit\<close>

record SGPErrorListener =
  has_errors :: bool
  get_errors :: "syntax_error list"

definition getTokens_call :: "parse_error + 't list" where
  \<comment> \<open>\<open>build_token_list(token_stream.getTokens(), options)\<close> as \<open>parse\<close> calls it. The
      antlr4 runtime declares \<open>getTokens(self, start, stop, types=None)\<close>: called with no
      argument it raises \<open>TypeError\<close>, before \<open>build_token_list\<close> is entered.\<close>
  "getTokens_call = Inl TypeError'"

definition parse :: "SGPVisitorOptions \<Rightarrow> bool \<Rightarrow> ('a, 't) SourceUnit visit \<Rightarrow> SGPErrorListener
                       \<Rightarrow> bool \<Rightarrow> parse_error + ('a, 't) SourceUnit" where
  \<comment> \<open>\<open>parse(input_string, options, dump_json, dump_path)\<close>. The lexer, the parser, the
      visitor and the error listener are not among the sources and are parameters:
      \<open>visited\<close> is the outcome of \<open>ast_builder.visit\<close>, \<open>listener\<close> what the listener
      answers after lexing and parsing, and \<open>dump_written\<close> whether the JSON dump
      (\<open>os.makedirs\<close>, \<open>open\<close>, \<open>simplejson.dumps\<close>, \<open>write\<close>) ends without an
      exception.\<close>
  "parse options dump_json visited listener dump_written =
     (case visited of
        VisitRaised \<Rightarrow> Inl (Exception ''AST was not generated'')
      | VisitNone \<Rightarrow> Inl (Exception ''AST was not generated'')
      | VisitReturned source_unit \<Rightarrow>
         (case (if tokens options then getTokens_call else Inr []) of
            Inl e \<Rightarrow> Inl e
          | Inr token_list \<Rightarrow>
             if \<not> errors_tolerant options \<and> has_errors listener
             then Inl (ParserError_init (get_errors listener))
             else (let source_unit1 =
                         (if errors_tolerant options \<and> has_errors listener
                          then source_unit\<lparr>su_errors := Some (get_errors listener)\<rparr>
                          else source_unit);
                       source_unit2 =
                         (if tokens options then source_unit1\<lparr>su_tokens := Some token_list\<rparr>
                          else source_unit1)
                   in if dump_json \<and> \<not> dump_written then Inl DumpError else Inr source_unit2)))"

section \<open>Properties the records are checked against\<close>

definition count_char :: "char \<Rightarrow> string \<Rightarrow> nat" where
  "count_char c s = length (filter (\<lambda>x. x = c) s)"

fun depth :: "string \<Rightarrow> int" where
  \<comment> \<open>the running depth after a text: opening braces met minus closing braces met\<close>
  "depth [] = 0"
| "depth (c # cs) =
     (if c = CHR ''{'' then 1 else if c = CHR ''}'' then - 1 else 0) + depth cs"

definition zero_touches :: "string \<Rightarrow> nat list" where
  \<comment> \<open>the lengths of the non-empty prefixes that end on a brace and leave the depth at
      zero, in ascending order\<close>
  "zero_touches s =
     filter (\<lambda>k. (s ! (k - 1) = CHR ''{'' \<or> s ! (k - 1) = CHR ''}'') \<and> depth (take k s) = 0)
       [1 ..< length s + 1]"

definition is_ParserError :: "parse_error + 'u \<Rightarrow> bool" where
  \<comment> \<open>the call raised a \<open>ParserError\<close>\<close>
  "is_ParserError res = (case res of Inl (ParserError msg errs) \<Rightarrow> True | _ \<Rightarrow> False)"

definition nl_count :: "string \<Rightarrow> nat" where
  \<comment> \<open>the newlines of a text; of the text before an offset, the 0-based index of the
      line the offset is on\<close>
  "nl_count s = length (filter (\<lambda>c. c = CHR 0x0A) s)"

fun starts_from :: "nat \<Rightarrow> nat \<Rightarrow> string list \<Rightarrow> (nat \<times> nat) list" where
  \<comment> \<open>the entries of \<open>line_starts\<close> for the lines left, the next index and the next
      offset given\<close>
  "starts_from i pos [] = []"
| "starts_from i pos (l # ls) = (i, pos) # starts_from (i + 1) (pos + length l + 1) ls"

section \<open>The line index\<close>

lemma nl_count_no_nl: "CHR 0x0A \<notin> set l \<Longrightarrow> nl_count l = 0"
  by (induction l) (auto simp: nl_count_def)

lemma nl_count_append: "nl_count (a @ b) = nl_count a + nl_count b"
  by (simp add: nl_count_def)

lemma nl_count_Cons: "nl_count (c # s) = (if c = CHR 0x0A then 1 else 0) + nl_count s"
  by (simp add: nl_count_def)

lemma count_nl_nl_count: "count_nl s = int (nl_count s)"
  by (simp add: count_nl_def nl_count_def)

lemma nl_count_take_add:
  assumes "a \<le> b"
  shows "nl_count (take b s) = nl_count (take a s) + nl_count (slice s a b)"
proof -
  have "take b s = take a s @ take (b - a) (drop a s)"
    using assms by (metis le_add_diff_inverse take_add)
  then show ?thesis by (simp add: nl_count_append slice_def)
qed

lemma split_nl_no_nl:
  assumes "CHR 0x0A \<notin> set s"
  shows "split_nl s = [s]"
proof -
  from assms have tw: "takeWhile (\<lambda>c. c \<noteq> CHR 0x0A) s = s"
    and dw: "dropWhile (\<lambda>c. c \<noteq> CHR 0x0A) s = []"
    by (induction s) auto
  show ?thesis by (subst split_nl.simps) (simp add: tw dw)
qed

lemma split_nl_append:
  assumes "CHR 0x0A \<notin> set l"
  shows "split_nl (l @ CHR 0x0A # rest) = l # split_nl rest"
proof -
  from assms have tw: "takeWhile (\<lambda>c. c \<noteq> CHR 0x0A) (l @ CHR 0x0A # rest) = l"
    and dw: "dropWhile (\<lambda>c. c \<noteq> CHR 0x0A) (l @ CHR 0x0A # rest) = CHR 0x0A # rest"
    by (induction l) auto
  show ?thesis by (subst split_nl.simps) (simp add: tw dw)
qed

lemma split_nl_nonempty: "split_nl s \<noteq> []"
  by (subst split_nl.simps) simp

lemma length_starts_from: "length (starts_from i pos ls) = length ls"
  by (induction ls arbitrary: i pos) simp_all

lemma starts_from_nth:
  "k < length ls \<Longrightarrow>
   starts_from i pos ls ! k = (i + k, pos + sum_list (map (\<lambda>l. length l + 1) (take k ls)))"
proof (induction ls arbitrary: i pos k)
  case Nil
  then show ?case by simp
next
  case (Cons l ls)
  then show ?case by (cases k) simp_all
qed

lemma line_starts_starts_from: "line_starts ls = starts_from 0 0 ls"
  by (rule nth_equalityI) (simp_all add: line_starts_def length_starts_from starts_from_nth)

lemma line_starts_nth:
  "i < length ls \<Longrightarrow>
   line_starts ls ! i = (i, sum_list (map (\<lambda>l. length l + 1) (take i ls)))"
  by (simp add: line_starts_def)

text \<open>
  A lookup that finds a line finds one after the first and within the text: the index
  it gives, less one, is a valid index into \<open>lines\<close>.
\<close>

lemma next_line_Some:
  assumes "next_line (line_starts ls) off = Some i"
  shows "0 < i \<and> i < length ls"
proof -
  from assms obtain pos where "find (\<lambda>(i, pos). pos > off) (line_starts ls) = Some (i, pos)"
    by (auto simp: next_line_def)
  then obtain k where k: "k < length (line_starts ls)" "(i, pos) = line_starts ls ! k" "off < pos"
    by (auto simp: find_Some_iff)
  then have kl: "k < length ls" by (simp add: line_starts_def)
  with k have "i = k" "pos = sum_list (map (\<lambda>l. length l + 1) (take k ls))"
    by (simp_all add: line_starts_nth)
  with k kl show ?thesis
    by (cases k) auto
qed

lemma find_starts:
  "map_option fst (find (\<lambda>(i, p). off < p) (starts_from i base (split_nl s))) =
     (if off < base then Some i
      else if CHR 0x0A \<in> set (drop (off - base) s)
      then Some (i + nl_count (take (off - base) s) + 1)
      else None)"
proof (induction s arbitrary: i base rule: length_induct)
  case (1 s)
  show ?case
  proof (cases "CHR 0x0A \<in> set s")
    case False
    then have "CHR 0x0A \<notin> set (drop (off - base) s)"
      by (meson in_set_dropD)
    with False show ?thesis by (simp add: split_nl_no_nl)
  next
    case True
    then obtain l rest where s: "s = l @ CHR 0x0A # rest" and l: "CHR 0x0A \<notin> set l"
      by (meson split_list_first)
    have IH: "map_option fst (find (\<lambda>(i, p). off < p)
                 (starts_from (i + 1) (base + length l + 1) (split_nl rest))) =
       (if off < base + length l + 1 then Some (i + 1)
        else if CHR 0x0A \<in> set (drop (off - (base + length l + 1)) rest)
        then Some (i + 1 + nl_count (take (off - (base + length l + 1)) rest) + 1)
        else None)"
      using 1 s by simp
    show ?thesis
    proof (cases "off < base")
      case True
      then show ?thesis by (simp add: s split_nl_append l)
    next
      case nb: False
      show ?thesis
      proof (cases "off < base + length l + 1")
        case True
        with nb have le: "off - base \<le> length l" by simp
        then have "nl_count (take (off - base) s) = 0"
          using l by (intro nl_count_no_nl) (auto simp: s dest: in_set_takeD)
        moreover have "CHR 0x0A \<in> set (drop (off - base) s)"
          using le by (simp add: s)
        ultimately show ?thesis
          using nb True IH by (simp add: s split_nl_append l)
      next
        case False
        then have d: "drop (off - base) s = drop (off - (base + length l + 1)) rest"
          by (simp add: s drop_Cons')
        have "take (off - base) s = l @ CHR 0x0A # take (off - (base + length l + 1)) rest"
          using False by (simp add: s take_Cons')
        then have "nl_count (take (off - base) s)
                   = 1 + nl_count (take (off - (base + length l + 1)) rest)"
          using l by (simp add: nl_count_append nl_count_Cons nl_count_no_nl)
        with d show ?thesis
          using nb False IH by (simp add: s split_nl_append l)
      qed
    qed
  qed
qed

text \<open>
  What the lookup computes on the lines of a text: one more than the 0-based index of
  the line the offset is on, when a newline stands at the offset or after it; nothing
  (the exhausted generator, \<open>StopIteration\<close>) when the offset is on the last line or
  beyond the text.
\<close>

theorem next_line_split_nl:
  "next_line (line_starts (split_nl s)) off =
     (if CHR 0x0A \<in> set (drop off s) then Some (nl_count (take off s) + 1) else None)"
  using find_starts [of off 0 0 s]
  by (simp add: next_line_def line_starts_starts_from)

section \<open>The matcher and the loops\<close>

lemma ms_end_ge: "(e, g') \<in> set (ms t r (p, g)) \<Longrightarrow> p \<le> e"
proof (induction r arbitrary: p g e g')
  case (Seq a b)
  from Seq.prems obtain e1 g1
    where "(e1, g1) \<in> set (ms t a (p, g))" "(e, g') \<in> set (ms t b (e1, g1))"
    by auto
  with Seq.IH show ?case by (meson le_trans)
next
  case (Grp n a)
  then show ?case by auto
qed (auto split: if_splits)

lemma match_at_Some:
  "match_at t r s = Some m \<Longrightarrow> m_start m = s \<and> s \<le> m_end m"
  using ms_end_ge [of "m_end m" "m_groups m" t r s "[]"]
  by (auto simp: match_at_def split: list.splits)

lemma finditer_from_bounds:
  "m \<in> set (finditer_from t r ss lim) \<Longrightarrow> m_start m \<le> m_end m"
  by (induction ss arbitrary: lim) (auto split: if_splits option.splits dest: match_at_Some)

lemma finditer_bounds: "m \<in> set (finditer r t) \<Longrightarrow> m_start m \<le> m_end m"
  by (auto simp: finditer_def dest: finditer_from_bounds)

lemma each_loop_all_set:
  assumes "each_loop round matches acc = Inr rs"
    and "\<forall>r \<in> set acc. P r"
    and "\<And>m r. m \<in> set matches \<Longrightarrow> round m = Inr r \<Longrightarrow> P r"
  shows "\<forall>r \<in> set rs. P r"
  using assms
proof (induction matches arbitrary: acc)
  case Nil
  then show ?case by simp
next
  case (Cons m rest)
  from Cons.prems(1) obtain r where r: "round m = Inr r"
    and loop: "each_loop round rest (acc @ [r]) = Inr rs"
    by (cases "round m") simp_all
  from r have "P r" by (rule Cons.prems(3) [rotated]) simp
  with Cons.prems(2) have "\<forall>x \<in> set (acc @ [r]). P x" by simp
  with loop show ?case
    by (rule Cons.IH) (auto intro: Cons.prems(3))
qed

lemma each_loop_length:
  "each_loop round matches acc = Inr rs \<Longrightarrow> length rs = length acc + length matches"
  by (induction matches arbitrary: acc) (auto split: sum.splits)

lemma go_body_end_gt: "go_body_end cs i bc = Some e \<Longrightarrow> i < e"
  by (induction cs i bc rule: go_body_end.induct) (auto split: if_splits)

lemma go_body_end_body_end: "0 < bc \<Longrightarrow> go_body_end cs i bc = body_end cs i bc"
  by (induction cs arbitrary: i bc) (auto simp: Let_def)

lemma depth_append: "depth (a @ b) = depth a + depth b"
  by (induction a) simp_all

text \<open>
  The brace loop, started with a positive count, stops at the first offset where the
  braces met bring the count to zero.
\<close>

lemma body_end_depth:
  assumes "body_end cs i bc = Some e" and "0 < bc"
  shows "\<exists>n. e = i + n \<and> 0 < n \<and> n \<le> length cs \<and> bc + depth (take n cs) = 0
             \<and> (\<forall>k<n. 0 < bc + depth (take k cs))"
  using assms
proof (induction cs arbitrary: i bc)
  case Nil
  then show ?case by simp
next
  case (Cons c cs)
  define d :: int where "d = (if c = CHR ''{'' then 1 else if c = CHR ''}'' then - 1 else 0)"
  have step: "body_end (c # cs) i bc =
              (if bc + d = 0 then Some (i + 1) else body_end cs (i + 1) (bc + d))"
    by (simp add: d_def Let_def)
  have dep: "depth (take (Suc k) (c # cs)) = d + depth (take k cs)" for k
    by (simp add: d_def)
  show ?case
  proof (cases "bc + d = 0")
    case True
    with Cons.prems step have "e = i + 1" by simp
    moreover have "bc + depth (take 1 (c # cs)) = 0"
      using True dep [of 0] by simp
    ultimately show ?thesis
      using Cons.prems(2) by (intro exI [of _ 1]) simp
  next
    case False
    with Cons.prems step have rec: "body_end cs (i + 1) (bc + d) = Some e" by simp
    have pos: "0 < bc + d"
      using False Cons.prems(2) by (auto simp: d_def split: if_splits)
    from Cons.IH [OF rec pos] obtain n where n: "e = i + 1 + n" "0 < n" "n \<le> length cs"
      "bc + d + depth (take n cs) = 0" "\<forall>k<n. 0 < bc + d + depth (take k cs)"
      by auto
    have "\<forall>k<Suc n. 0 < bc + depth (take k (c # cs))"
    proof (intro allI impI)
      fix k assume "k < Suc n"
      then show "0 < bc + depth (take k (c # cs))"
        using n(5) Cons.prems(2) dep by (cases k) (auto simp: add.assoc)
    qed
    moreover have "bc + depth (take (Suc n) (c # cs)) = 0"
      using n(4) dep [of n] by simp
    ultimately show ?thesis
      using n(1,3) by (intro exI [of _ "Suc n"]) simp
  qed
qed

section \<open>The scanners on every text\<close>

text \<open>
  A head that starts on the last line of the text, or in a text of one line, makes
  every scanner's round raise \<open>StopIteration\<close>.
\<close>

lemma rust_round_last_line:
  assumes "CHR 0x0A \<notin> set (drop (m_start m) text)"
  shows "rust_round text filename hash (split_nl text) cc m = Inl StopIteration"
  using assms by (simp add: rust_round_def next_line_split_nl)

lemma cairo_round_last_line:
  assumes "CHR 0x0A \<notin> set (drop (m_start m) text)"
  shows "cairo_round text filename hash (split_nl text) m = Inl StopIteration"
  using assms by (simp add: cairo_round_def next_line_split_nl)

lemma go_round_last_line:
  assumes "CHR 0x0A \<notin> set (drop (m_start m) text)"
  shows "go_round text filename hash (split_nl text) m = Inl StopIteration"
  using assms by (simp add: go_round_def next_line_split_nl)

lemma move_round_last_line:
  assumes "CHR 0x0A \<notin> set (drop (m_start m) text)"
  shows "move_round text filename hash (split_nl text) cc m locals = Inl StopIteration"
  using assms by (simp add: move_round_def next_line_split_nl)

lemma python_round_last_line:
  assumes "CHR 0x0A \<notin> set (drop (m_start m) text)"
  shows "python_round text filename hash (split_nl text) m = Inl StopIteration"
  using assms by (simp add: python_round_def next_line_split_nl)

text \<open>
  The Python scanner keeps \<open>1 \<le> start_line \<le> end_line\<close> in every record, and loses the
  first header: with \<open>n > 0\<close> headers it returns \<open>n - 1\<close> records.
\<close>

lemma python_body_end_ge: "e \<le> python_body_end ls e ind"
  by (induction ls e ind rule: python_body_end.induct) auto

lemma python_round_lines:
  assumes "python_round text filename hash_value lines m = Inr r"
  shows "1 \<le> start_line r \<and> start_line r \<le> end_line r"
  using assms python_body_end_ge [of "int (the (next_line (line_starts lines) (m_start m)) - 1) + 1"
      "drop (the (next_line (line_starts lines) (m_start m)) - 1 + 1) lines"]
  by (auto simp: python_round_def Let_def split: option.splits)

theorem find_python_functions_lines:
  assumes "find_python_functions text filename hash_value = Inr rs" and "r \<in> set rs"
  shows "1 \<le> start_line r \<and> start_line r \<le> end_line r"
proof (cases "finditer python_regex text")
  case Nil
  with assms show ?thesis
    using split_nl_nonempty [of "text"]
    by (auto simp: find_python_functions_def Let_def Suc_le_eq)
next
  case (Cons m rest)
  with assms have "each_loop (python_round text filename hash_value (split_nl text)) rest [] = Inr rs"
    by (simp add: find_python_functions_def Let_def)
  then have "\<forall>r \<in> set rs. 1 \<le> start_line r \<and> start_line r \<le> end_line r"
    by (rule each_loop_all_set) (simp_all add: python_round_lines)
  with assms(2) show ?thesis by blast
qed

theorem find_python_functions_count:
  assumes "find_python_functions text filename hash_value = Inr rs"
    and "finditer python_regex text \<noteq> []"
  shows "length rs = length (finditer python_regex text) - 1"
proof -
  from assms(2) obtain m rest where c: "finditer python_regex text = m # rest"
    by (cases "finditer python_regex text") auto
  with assms have "each_loop (python_round text filename hash_value (split_nl text)) rest [] = Inr rs"
    by (simp add: find_python_functions_def Let_def)
  from each_loop_length [OF this] c show ?thesis by simp
qed

text \<open>
  Every record of the Go scanner has \<open>end_line = start_line + node_count - 2\<close>: one less
  than the 1-based line of its last character. So \<open>start_line \<le> end_line\<close> holds exactly
  for the records of two lines or more.
\<close>

lemma go_round_lines:
  assumes "go_round text filename hash (split_nl text) m = Inr r"
    and "m_start m \<le> m_end m"
  shows "end_line r = start_line r + node_count r - 2"
proof -
  define fbe where "fbe = (case go_body_end (drop (m_end m) text) (m_end m) 1 of
                             None \<Rightarrow> m_start m | Some e \<Rightarrow> e)"
  have le: "m_start m \<le> fbe"
    using assms(2) go_body_end_gt [of "drop (m_end m) text" "m_end m" 1]
    by (auto simp: fbe_def split: option.splits)
  from assms(1) have
    "start_line r = int (nl_count (take (m_start m) text)) + 1"
    "end_line r = int (nl_count (take fbe text))"
    "node_count r = int (nl_count (slice text (m_start m) fbe)) + 1"
    by (auto simp: go_round_def Let_def next_line_split_nl fbe_def count_nl_nl_count
             split: option.splits if_splits)
  with nl_count_take_add [OF le, of "text"] show ?thesis by simp
qed

theorem find_go_functions_lines:
  assumes "find_go_functions text filename hash = Inr rs" and "r \<in> set rs"
  shows "end_line r = start_line r + node_count r - 2"
proof -
  from assms(1) have "each_loop (go_round text filename hash (split_nl text))
                        (finditer go_regex text) [] = Inr rs"
    by (simp add: find_go_functions_def Let_def)
  then have "\<forall>r \<in> set rs. end_line r = start_line r + node_count r - 2"
    by (rule each_loop_all_set) (simp_all add: go_round_lines finditer_bounds)
  with assms(2) show ?thesis by blast
qed

text \<open>
  Every declaration-only record of the Move scanner has \<open>end_line = start_line - 1\<close>.
\<close>

lemma move_round_declaration:
  assumes "move_round text filename hash lines cc m locals = Inr (locals', r)"
    and "group text m 1 = Some head" and "endswith '';'' (strip head)"
  shows "end_line r = start_line r - 1 \<and> node_count r = 1 \<and> content r = head"
  using assms
  by (auto simp: move_round_def move_assign_def Let_def split: option.splits)

text \<open>
  A head whose depth never returns to zero: the Rust and the Cairo round append
  nothing; the Go round appends a record with the empty content; the Move round, with
  its locals still unbound, raises \<open>UnboundLocalError\<close>.
\<close>

lemma rust_round_unterminated:
  assumes "body_end (drop (m_end m) text) (m_end m) 1 = None"
  shows "rust_round text filename hash lines cc m = Inr None
         \<or> rust_round text filename hash lines cc m = Inl StopIteration"
  using assms by (simp add: rust_round_def Let_def split: option.splits)

lemma cairo_round_unterminated:
  assumes "body_end (drop (m_end m) text) (m_end m) 1 = None"
  shows "cairo_round text filename hash lines m = Inr None
         \<or> cairo_round text filename hash lines m = Inl StopIteration"
  using assms by (simp add: cairo_round_def Let_def split: option.splits)

lemma go_round_unterminated:
  assumes "go_body_end (drop (m_end m) text) (m_end m) 1 = None"
    and "go_round text filename hash lines m = Inr r"
  shows "content r = [] \<and> node_count r = 1 \<and> end_line r = start_line r - 1"
  using assms
  by (auto simp: go_round_def Let_def slice_def count_nl_def split: option.splits)

lemma move_round_unterminated:
  assumes "body_end (drop (m_end m) text) (m_end m) 1 = None"
    and "group text m 1 = Some head" and "\<not> endswith '';'' (strip head)"
    and "group text m 2 = Some n"
  shows "move_round text filename hash lines cc m None = Inl UnboundLocalError
         \<or> move_round text filename hash lines cc m None = Inl StopIteration"
  using assms
  by (simp add: move_round_def move_assign_def Let_def split: option.splits)

text \<open>
  The content of a Rust record is the matched head and then a text that closes one
  brace more than it opens: the braces of the content are as many exactly when the head
  opens one brace more than it closes.
\<close>

lemma rust_round_Some:
  assumes "rust_round text filename hash lines cc m = Inr (Some r)"
  shows "\<exists>e. body_end (drop (m_end m) text) (m_end m) 1 = Some e
             \<and> content r = slice text (m_start m) e"
proof (cases "next_line (line_starts lines) (m_start m)")
  case None
  with assms show ?thesis by (simp add: rust_round_def)
next
  case i1: (Some i1)
  show ?thesis
  proof (cases "body_end (drop (m_end m) text) (m_end m) 1")
    case None
    with assms i1 show ?thesis by (simp add: rust_round_def)
  next
    case e: (Some e)
    show ?thesis
    proof (cases "group text m 1")
      case None
      with assms i1 e show ?thesis by (simp add: rust_round_def Let_def)
    next
      case h: (Some head)
      show ?thesis
      proof (cases "fn_name head")
        case (Inl err)
        with assms i1 e h show ?thesis by (simp add: rust_round_def Let_def)
      next
        case (Inr n)
        with assms i1 e h show ?thesis by (auto simp add: rust_round_def Let_def)
      qed
    qed
  qed
qed

theorem rust_round_content_depth:
  assumes "rust_round text filename hash lines cc m = Inr (Some r)"
    and "m_start m \<le> m_end m"
  shows "depth (content r) = depth (group0 text m) - 1"
proof -
  from rust_round_Some [OF assms(1)] obtain e
    where e: "body_end (drop (m_end m) text) (m_end m) 1 = Some e"
      and c: "content r = slice text (m_start m) e"
    by auto
  from body_end_depth [OF e] obtain n where n: "e = m_end m + n"
    "1 + depth (take n (drop (m_end m) text)) = 0"
    by auto
  define a where "a = m_end m - m_start m"
  have ea: "e - m_start m = a + n"
    using assms(2) n(1) by (simp add: a_def)
  have da: "drop a (drop (m_start m) text) = drop (m_end m) text"
    using assms(2) by (simp add: a_def)
  have "take (a + n) (drop (m_start m) text)
        = take a (drop (m_start m) text) @ take n (drop (m_end m) text)"
    by (simp only: take_add da)
  then have "slice text (m_start m) e =
             slice text (m_start m) (m_end m) @ take n (drop (m_end m) text)"
    by (simp only: slice_def ea a_def)
  with c n(2) show ?thesis
    by (simp add: depth_append group0_def)
qed

section \<open>The scanners on the specification's inputs\<close>

text \<open>
  Claim C1: every record of the five scanners has 1-based inclusive line numbers with
  \<open>start_line \<le> end_line\<close>, the Go records and the Move declaration-only records
  included.

  The brace scanners add one to the 0-based start index and leave the end index 0-based,
  so a function that starts and ends on one line gets \<open>end_line = start_line - 1\<close>. On
  the one-line Go function and on the Move declaration below, whatever the file name and
  the hash, the only record has \<open>start_line = 1\<close> and \<open>end_line = 0\<close>.
\<close>

theorem C1_end_line_before_start_line:
  "map_sum id (map (\<lambda>r. (start_line r, end_line r)))
     (find_go_functions ''func Foo() {}\<newline>'' filename hash) = Inr [(1, 0)]
   \<and> map_sum id (map (\<lambda>r. (start_line r, end_line r)))
     (find_move_functions ''native fun bar(x: u64);\<newline>'' filename hash) = Inr [(1, 0)]"
  by code_simp

text \<open>
  Claim C2: on a non-empty text the Python scanner returns at least one record; a text
  with exactly one \<open>def\<close> header still yields a record.

  \<open>any(matches)\<close> takes the first match off the iterator and the loop runs over the
  rest: with one header the loop body never runs, and the result is the empty list.
\<close>

theorem C2_single_def_yields_no_record:
  "find_python_functions ''def f():\<newline>    pass\<newline>'' filename hash_value = Inr []"
  by code_simp

text \<open>
  Claim C3: the line lookup has no failure mode and no scanner raises on well-formed
  input, in particular on a function whose head starts on the last line of the text.

  A lookup without a default finds no line start beyond an offset on the last line. On
  a one-line text with no newline at its end the Rust scanner and the Go scanner raise
  \<open>StopIteration\<close>.
\<close>

theorem C3_last_line_raises_StopIteration:
  "find_rust_functions ''fn f() {}'' filename hash = Inl StopIteration
   \<and> find_go_functions ''func f() {}'' filename hash = Inl StopIteration"
  by code_simp

text \<open>
  Claim C4: on the text \<open>func Foo() {\n  return\n}\n\<close> the Go scanner returns exactly
  one record, with \<open>start_line = 1\<close>, \<open>end_line = 3\<close> and \<open>node_count = 3\<close>.

  The scanner returns exactly one record with \<open>start_line = 1\<close> and \<open>node_count = 3\<close>,
  but its \<open>end_line\<close> is 2: the 0-based index of the line of the closing brace.
\<close>

theorem C4_go_example_end_line_is_2:
  "map_sum id (map (\<lambda>r. (start_line r, end_line r, node_count r)))
     (find_go_functions ''func Foo() {\<newline>  return\<newline>}\<newline>'' filename hash) = Inr [(1, 2, 3)]"
  by code_simp

text \<open>
  Claim C5: on a text with the declaration \<open>native fun bar(x: u64);\<close> the Move scanner
  emits one record for it, tagged \<open>native\<close>, with \<open>start_line = end_line\<close>,
  \<open>node_count = 1\<close> and the matched head as its content.

  On the declaration alone, with no newline after it, the scanner raises
  \<open>StopIteration\<close>. With a newline after it the record is as the claim says, but for its
  lines: \<open>start_line = 1\<close> and \<open>end_line = 0\<close>.
\<close>

theorem C5_move_declaration_lines_differ:
  "find_move_functions ''native fun bar(x: u64);'' filename hash = Inl StopIteration
   \<and> map_sum id
       (map (\<lambda>r. (modifiers r, start_line r, end_line r, node_count r, content r)))
       (find_move_functions ''native fun bar(x: u64);\<newline>'' filename hash)
     = Inr [([''native''], 1, 0, 1, ''native fun bar(x: u64);'')]"
  by code_simp

text \<open>
  Claim C6: a matched head whose depth never returns to zero gives no record, in any
  of the brace scanners, the scan goes on and is never aborted.

  On an unterminated body the Go scanner emits a record with the empty content. The
  Move scanner raises \<open>UnboundLocalError\<close> when the unterminated function is the first
  match, and otherwise emits a record with the lines and the content of the match
  before.
\<close>

theorem C6_unterminated_body_not_dropped:
  "map_sum id (map (\<lambda>r. (start_line r, end_line r, content r)))
     (find_go_functions ''func f() {\<newline>'' filename hash) = Inr [(1, 0, [])]
   \<and> find_move_functions ''fun f() {\<newline>'' filename hash = Inl UnboundLocalError
   \<and> map_sum id (map (\<lambda>r. (name r, start_line r, end_line r, content r)))
       (find_move_functions ''fun g() {\<newline>}\<newline>fun f() {\<newline>'' filename hash)
     = Inr [(''special_g'', 1, 1, ''fun g() {\<newline>}''),
            (''special_f'', 3, 1, ''fun g() {\<newline>}'')]"
  by code_simp

text \<open>
  Claim C7: in the content of every record with a body the opening and the closing
  braces are as many, and the running depth touches zero once, at the last character;
  this for the Go scanner too, whose head can hold several opening braces.

  The Go head \<open>func f() { if x {\<close> holds two opening braces and the count starts at one:
  the content ends at the first closing brace, with two opening braces and one closing.
  On a signature with \<open>struct{}\<close> the braces are as many, but the depth is back at zero
  after 28 characters as well as after the last, the 32nd.
\<close>

theorem C7_go_content_unbalanced:
  "map_sum id
     (map (\<lambda>r. (content r, count_char CHR ''{'' (content r), count_char CHR ''}'' (content r))))
     (find_go_functions ''func f() { if x {\<newline>}\<newline>}\<newline>'' filename hash)
     = Inr [(''func f() { if x {\<newline>}'', 2, 1)]
   \<and> map_sum id (map (\<lambda>r. (content r, zero_touches (content r))))
       (find_go_functions ''func f() map[string]struct{} {\<newline>}\<newline>'' filename hash)
     = Inr [(''func f() map[string]struct{} {\<newline>}'', [28, 32])]"
  by code_simp

text \<open>
  Claim C8: each scanner is deterministic, since it reads and changes nothing outside
  its call.

  Each scanner above is a function of its text, its file name and its hash and of
  nothing else: the translation needed no state to pass in or out. That two calls with
  the same arguments agree is then an instance of \<open>x = x\<close>, which holds of any
  function, and is not stated as a theorem.
\<close>

section \<open>The dispatcher and the parser\<close>

text \<open>
  With the \<open>tokens\<close> option set and a source unit built, \<open>parse\<close> raises \<open>TypeError\<close>
  at the call of \<open>getTokens\<close>, whatever the listener holds and whatever the tolerant
  option says.
\<close>

lemma parse_tokens_TypeError:
  assumes "tokens options" and "visited = VisitReturned source_unit"
  shows "parse options dump_json visited listener dump_written = Inl TypeError'"
  using assms by (simp add: parse_def getTokens_call_def)

text \<open>
  Claim C9: \<open>parse\<close> raises a \<open>ParserError\<close> exactly when the listener reports errors
  and the tolerant option is not set; its message is the first error's message followed
  by \<open>(line:column)\<close> and its \<open>errors\<close> the whole list; in tolerant mode the list is
  attached to the returned root's \<open>errors\<close> and nothing is raised for the syntax errors.

  As stated the claim fails when the visitor built no tree: \<open>parse\<close> has raised
  \<open>Exception("AST was not generated")\<close> before it asks the listener.
\<close>

theorem C9_no_tree_counterexample:
  "parse \<lparr>tokens = False, errors_tolerant = False\<rparr> False
     (VisitNone :: (unit, unit) SourceUnit visit)
     \<lparr>has_errors = True,
      get_errors = [\<lparr>message = ''mismatched input'', line = 1, column = 0\<rparr>]\<rparr>
     True
     = Inl (Exception ''AST was not generated'')
   \<and> has_errors \<lparr>has_errors = True,
         get_errors = [\<lparr>message = ''mismatched input'', line = 1, column = 0\<rparr>]\<rparr>
   \<and> \<not> errors_tolerant \<lparr>tokens = False, errors_tolerant = False\<rparr>"
  by (simp add: parse_def)

text \<open>
  Claim C9, amended: when the \<open>tokens\<close> option is not set, the visitor returned a
  source unit, and the listener's list is not empty whenever it reports errors, \<open>parse\<close>
  raises a \<open>ParserError\<close> exactly when the listener reports errors and the tolerant
  option is not set; the error raised has the first error's message followed by
  \<open>(line:column)\<close> as its message and the whole list as its \<open>errors\<close>; when the tolerant
  option is set and the listener reports errors, the call returns a source unit whose
  \<open>errors\<close> is the listener's list, unless the JSON dump was asked for and raises.
  Nothing is said of a call with the \<open>tokens\<close> option set.
\<close>

theorem C9_parse_raises_ParserError:
  assumes "\<not> tokens options"
    and "visited = VisitReturned source_unit"
    and "has_errors listener \<longrightarrow> get_errors listener \<noteq> []"
  shows "(is_ParserError (parse options dump_json visited listener dump_written)
          \<longleftrightarrow> has_errors listener \<and> \<not> errors_tolerant options)
       \<and> (has_errors listener \<and> \<not> errors_tolerant options \<longrightarrow>
            parse options dump_json visited listener dump_written
              = Inl (ParserError
                       (message (hd (get_errors listener)) @ '' ('' @
                        str (line (hd (get_errors listener))) @ '':'' @
                        str (column (hd (get_errors listener))) @ '')'')
                       (get_errors listener)))
       \<and> (has_errors listener \<and> errors_tolerant options \<longrightarrow>
            (case parse options dump_json visited listener dump_written of
               Inr r \<Rightarrow> su_errors r = Some (get_errors listener)
             | Inl e \<Rightarrow> e = DumpError \<and> dump_json \<and> \<not> dump_written))"
  using assms
  by (cases "get_errors listener")
     (auto simp: parse_def ParserError_init_def is_ParserError_def Let_def)

theorem C9_parse_raises_ParserError_witness:
  "\<not> tokens \<lparr>tokens = False, errors_tolerant = False\<rparr>
   \<and> is_ParserError
     (parse \<lparr>tokens = False, errors_tolerant = False\<rparr> False
        (VisitReturned \<lparr>su_root = (), su_errors = None, su_tokens = (None :: unit list option)\<rparr>)
        \<lparr>has_errors = True,
         get_errors = [\<lparr>message = ''mismatched input'', line = 3, column = 14\<rparr>]\<rparr>
        True)
   \<and> parse \<lparr>tokens = False, errors_tolerant = False\<rparr> False
        (VisitReturned \<lparr>su_root = (), su_errors = None, su_tokens = (None :: unit list option)\<rparr>)
        \<lparr>has_errors = True,
         get_errors = [\<lparr>message = ''mismatched input'', line = 3, column = 14\<rparr>]\<rparr>
        True
      = Inl (ParserError ''mismatched input (3:14)''
               [\<lparr>message = ''mismatched input'', line = 3, column = 14\<rparr>])"
proof -
  have digits: "str 3 = ''3''" "str 14 = ''14''"
    by code_simp+
  show ?thesis
    using C9_parse_raises_ParserError
      [of "\<lparr>tokens = False, errors_tolerant = False\<rparr>"
          "VisitReturned \<lparr>su_root = (), su_errors = None, su_tokens = (None :: unit list option)\<rparr>"
          "\<lparr>su_root = (), su_errors = None, su_tokens = (None :: unit list option)\<rparr>"
          "\<lparr>has_errors = True,
            get_errors = [\<lparr>message = ''mismatched input'', line = 3, column = 14\<rparr>]\<rparr>"
          False True]
    by (simp add: digits is_ParserError_def)
qed



end
